theory Spec2Isabelle
  imports Complex_Main "HOL-Library.Sublist"
begin

section \<open>Common Python notions\<close>

text \<open>
  Exceptions are values. Each constructor is a Python exception class of the
  program; the string is the fixed part of the message the source raises it with.
\<close>

datatype exn =
    ValueError string
  | TypeError string
  | KeyError string
  | IndexError string
  | AssertionError string
  | RuntimeError string
  | RuntimeWarning string
  | UnboundLocalError string
  | ZeroDivisionError string
  | PatternMatchError string
  | TemplateNotFoundError string
  | DocumentsNotFoundWarning string
  | DocumentNotFoundError string
  | DeliveryNotFoundError string
  | InvoiceNotFoundError string

text \<open>
  Python values as they occur in the extracted data and in the claim context.
  A Python \<open>float\<close> is modelled by the rational number it stands for.
\<close>

datatype pyval =
    PNone
  | PInt int
  | PFloat rat
  | PStr string
  | PList "pyval list"

text \<open>A \<open>dict\<close> with string keys, in insertion order; \<open>d.get(k)\<close> and \<open>k in d\<close>.\<close>

type_synonym pydict = "(string \<times> pyval) list"

definition dict_get :: "pydict \<Rightarrow> string \<Rightarrow> pyval" where
  "dict_get d k = (case map_of d k of None \<Rightarrow> PNone | Some v \<Rightarrow> v)"

definition dict_has :: "pydict \<Rightarrow> string \<Rightarrow> bool" where
  "dict_has d k = (k \<in> set (map fst d))"

section \<open>Claim compiler: transaction type (compiler.py, \<open>Claim._get_transaction_type\<close>)\<close>

definition categories_QM :: "string list" where
  "categories_QM = [''delivery'', ''finance'', ''invoice'', ''penalty_general'',
     ''penalty_delay'', ''penalty_quote'', ''price'', ''rebuild'', ''return'']"

definition categories_ZQM :: "string list" where
  "categories_ZQM = [''bonus'', ''promo'', ''quality'']"

text \<open>
  \<open>data["category"] in self._categories[...]\<close>: the category of a credit note is
  \<open>None\<close>, which is a member of neither tuple.
\<close>

definition categ_in :: "string option \<Rightarrow> string list \<Rightarrow> bool" where
  "categ_in c cs = (case c of None \<Rightarrow> False | Some s \<Rightarrow> s \<in> set cs)"

definition get_transaction_type :: "string \<Rightarrow> string option \<Rightarrow> exn + string" where
  "get_transaction_type kind category =
     (if kind = ''debit'' then
        (if categ_in category categories_QM then Inr ''QM''
         else if categ_in category categories_ZQM then Inr ''ZQM''
         else Inl (ValueError ''Unrecognized document category''))
      else if kind = ''credit'' then Inr ''DMS''
      else Inl (ValueError ''Unrecognized document kind''))"

section \<open>Claim compiler: reference selection (compiler.py, \<open>Claim._get_reference\<close>)\<close>

text \<open>The rule's \<open>reference_by\<close> value: \<open>Union[int, str, list]\<close>.\<close>

datatype ref_rule = RefInt int | RefStr string | RefList "string list"

definition available_refs :: "string list" where
  "available_refs = [''invoice_number'', ''delivery_number'', ''purchase_order_number'',
     ''account_number'', ''head_office_number'']"

text \<open>
  The loop \<open>for ref_name in available_refs\<close> with its two accumulators
  \<open>used_valid_refs\<close> and \<open>unused_valid_refs\<close> (\<open>all_valid_refs\<close> is only logged).
\<close>

fun collect_refs ::
  "pydict \<Rightarrow> string list \<Rightarrow> string list \<Rightarrow> string list \<Rightarrow>
   (string \<times> pyval) list \<times> (string \<times> pyval) list \<Rightarrow>
   (string \<times> pyval) list \<times> (string \<times> pyval) list" where
  "collect_refs cc used unused [] acc = acc"
| "collect_refs cc used unused (r # rs) (uv, nv) =
     (let ref_val = dict_get cc r in
      if ref_val = PNone then collect_refs cc used unused rs (uv, nv)
      else if r \<in> set used then collect_refs cc used unused rs (uv @ [(r, ref_val)], nv)
      else if r \<in> set unused then collect_refs cc used unused rs (uv, nv @ [(r, ref_val)])
      else collect_refs cc used unused rs (uv, nv))"

definition get_reference :: "ref_rule \<Rightarrow> string \<Rightarrow> pydict \<Rightarrow> exn + (string \<times> pyval)" where
  "get_reference val tr_type claim_create =
     (if tr_type \<notin> {''QM'', ''ZQM''} then Inl (AssertionError ''Invalid operation'')
      else case val of
        RefInt n \<Rightarrow> Inr (''account_number'', PInt n)
      | _ \<Rightarrow>
        if tr_type = ''ZQM'' \<and> val \<notin> {RefStr ''head_office_number'', RefStr ''account_number''}
        then Inl (ValueError ''Invalid reference_by value for category quality'')
        else
          let used_refs = (case val of RefStr s \<Rightarrow> [s] | RefList l \<Rightarrow> l | RefInt n \<Rightarrow> []);
              invalid_ref_flds = filter (\<lambda>r. r \<notin> set available_refs) used_refs
          in if invalid_ref_flds \<noteq> [] then Inl (ValueError ''Unrecognized reference_by value'')
          else
            let all_refs = filter (dict_has claim_create) available_refs
            in if all_refs = [] then Inl (RuntimeWarning ''No valid reference value found'')
            else
              let unused_refs = filter (\<lambda>r. r \<notin> set used_refs) all_refs;
                  (used_valid_refs, unused_valid_refs) =
                     collect_refs claim_create used_refs unused_refs available_refs ([], [])
              in if used_valid_refs = [] \<and> unused_valid_refs \<noteq> []
                 then Inl (RuntimeError ''Other references with valid values are available'')
                 else if used_valid_refs = [] \<and> unused_valid_refs = []
                 then Inl (RuntimeError ''No other references with valid values'')
                 else Inr (hd used_valid_refs))"


text \<open>
  The dynamic part of \<open>get_reference\<close> in closed form, for the list \<open>used\<close> of names
  the rule gives; lemma \<open>get_reference_dynamic\<close> below proves it equal to the code's loop.
\<close>

definition select_dynamic :: "string list \<Rightarrow> pydict \<Rightarrow> exn + (string \<times> pyval)" where
  "select_dynamic used cc =
     (if \<not> set used \<subseteq> set available_refs then Inl (ValueError ''Unrecognized reference_by value'')
      else if \<not> (\<exists>r \<in> set available_refs. dict_has cc r)
      then Inl (RuntimeWarning ''No valid reference value found'')
      else case find (\<lambda>r. dict_get cc r \<noteq> PNone \<and> r \<in> set used) available_refs of
          Some r \<Rightarrow> Inr (r, dict_get cc r)
        | None \<Rightarrow>
            if \<exists>r \<in> set available_refs. dict_get cc r \<noteq> PNone \<and> r \<notin> set used
            then Inl (RuntimeError ''Other references with valid values are available'')
            else Inl (RuntimeError ''No other references with valid values''))"

section \<open>ERP document search (va03.py) and accounting-document resolution (compiler.py)\<close>

text \<open>\<open>str(n)\<close> for an integer.\<close>

definition digit_char :: "nat \<Rightarrow> char" where
  "digit_char d = ''0123456789'' ! d"

fun str_nat :: "nat \<Rightarrow> string" where
  "str_nat n = (if n < 10 then [digit_char n] else str_nat (n div 10) @ [digit_char (n mod 10)])"

declare str_nat.simps [simp del]

definition str_int :: "int \<Rightarrow> string" where
  "str_int i = (if i < 0 then CHR ''-'' # str_nat (nat (- i)) else str_nat (nat i))"

definition startswith :: "string \<Rightarrow> string \<Rightarrow> bool" where
  "startswith s p = (take (length p) s = p)"

text \<open>The document classes of the \<open>sap\<close> package and their validating constructors.\<close>

datatype document = is_Invoice: Invoice int | is_Delivery: Delivery int | is_PurchaseOrder: PurchaseOrder int

definition mk_Invoice :: "pyval \<Rightarrow> exn + document" where
  "mk_Invoice val = (case val of
      PInt n \<Rightarrow> if length (str_int n) \<noteq> 9 then Inl (ValueError ''not a valid invoice number'')
                else Inr (Invoice n)
    | _ \<Rightarrow> Inl (TypeError ''Value of type int expected''))"

definition mk_Delivery :: "pyval \<Rightarrow> exn + document" where
  "mk_Delivery val = (case val of
      PInt n \<Rightarrow> if \<not> (length (str_int n) = 9 \<and> startswith (str_int n) ''31'')
                then Inl (ValueError ''not a valid delivery note number'')
                else Inr (Delivery n)
    | _ \<Rightarrow> Inl (TypeError ''Value of type int expected''))"

definition mk_PurchaseOrder :: "pyval \<Rightarrow> exn + document" where
  "mk_PurchaseOrder val = (case val of
      PInt n \<Rightarrow> if \<not> (5 \<le> length (str_int n) \<and> length (str_int n) \<le> 7)
                then Inl (ValueError ''not a valid purchase order number'')
                else Inr (PurchaseOrder n)
    | _ \<Rightarrow> Inl (TypeError ''Value of type int expected''))"

text \<open>
  The ERP tables behind \<open>RFC_READ_TABLE\<close>, as the queries of va03.py read them:
  the sales documents of a purchase order (optionally filtered by customer account), the
  sales documents preceding an invoice or delivery, and per sales document its first
  invoice, its first outbound delivery and its sold-to account.
\<close>

record erp =
  VBAK_by_po :: "int \<Rightarrow> int option \<Rightarrow> int list"
  VBFA_by_doc :: "int \<Rightarrow> int list"
  VBFA_invoice :: "int \<Rightarrow> int option"
  VBFA_delivery :: "int \<Rightarrow> int option"
  VBAK_account :: "int \<Rightarrow> int option"

record acc_doc =
  sales_document :: int
  invoice :: int
  delivery :: int
  account :: int

text \<open>
  \<open>va03._get_accounting_docs\<close>. \<open>int(None)\<close> raises \<open>TypeError\<close> when only one of
  invoice and delivery is missing.
\<close>

fun va03_get_accounting_docs :: "erp \<Rightarrow> int list \<Rightarrow> exn + acc_doc list" where
  "va03_get_accounting_docs e [] = Inr []"
| "va03_get_accounting_docs e (sales_doc # rest) =
     (case VBAK_account e sales_doc of
        None \<Rightarrow> Inl (IndexError ''list index out of range'')
      | Some acc_num \<Rightarrow>
         (case (VBFA_invoice e sales_doc, VBFA_delivery e sales_doc) of
            (None, None) \<Rightarrow>
              Inl (DocumentsNotFoundWarning ''Neither a debit note nor an invoice was found'')
          | (None, Some d) \<Rightarrow> Inl (TypeError ''int() argument must not be NoneType'')
          | (Some i, None) \<Rightarrow> Inl (TypeError ''int() argument must not be NoneType'')
          | (Some i, Some d) \<Rightarrow>
             (case va03_get_accounting_docs e rest of
                Inl x \<Rightarrow> Inl x
              | Inr result \<Rightarrow>
                 Inr (\<lparr>sales_document = sales_doc, invoice = i, delivery = d,
                        account = acc_num\<rparr> # result))))"

text \<open>\<open>list(set(...))\<close> is modelled by \<open>remdups\<close>; the order of a Python set is unspecified.\<close>

definition find_accounting_documents :: "erp \<Rightarrow> document \<Rightarrow> int option \<Rightarrow> exn + acc_doc list" where
  "find_accounting_documents e doc acc =
     (let response = (case doc of
              PurchaseOrder po \<Rightarrow> VBAK_by_po e po acc
            | Invoice n \<Rightarrow> VBFA_by_doc e n
            | Delivery n \<Rightarrow> VBFA_by_doc e n);
          sales_docs = remdups response
      in if sales_docs = [] \<and> is_PurchaseOrder doc \<and> acc \<noteq> None
         then Inl (DocumentNotFoundError ''no sales document exists for the purchase order'')
         else if sales_docs = [] \<and> is_Invoice doc
         then Inl (DeliveryNotFoundError ''no sales document exists for the invoice'')
         else if sales_docs = [] \<and> is_Delivery doc
         then Inl (InvoiceNotFoundError ''no sales document exists for the delivery'')
         else (case va03_get_accounting_docs e sales_docs of
                 Inl x \<Rightarrow> Inl x
               | Inr records \<Rightarrow>
                   if records = [] then Inl (AssertionError ''No accounting document was found!'')
                   else Inr records))"


text \<open>\<open>x if isinstance(x, list) else [x]\<close>\<close>

definition as_list :: "pyval \<Rightarrow> pyval" where
  "as_list v = (case v of PList xs \<Rightarrow> PList xs | _ \<Rightarrow> PList [v])"

text \<open>
  The tail of the purchase-order branch. \<open>acc_docs\<close> is \<open>None\<close> when the \<open>try\<close> block
  left the local variable unassigned (an exception handler ran).
\<close>

definition check_multiple ::
  "acc_doc list option \<Rightarrow> int option \<Rightarrow> pyval \<times> pyval \<Rightarrow> exn + (pyval \<times> pyval)" where
  "check_multiple acc_docs acc res =
     (if acc = None then
        (case acc_docs of
           None \<Rightarrow> Inl (UnboundLocalError ''acc_docs'')
         | Some docs \<Rightarrow>
             if length docs > 1
             then Inl (RuntimeError ''Multiple records found without using customer account as a filter!'')
             else Inr res)
      else Inr res)"

definition is_DocumentNotFoundError :: "exn \<Rightarrow> bool" where
  "is_DocumentNotFoundError x = (case x of
       DocumentNotFoundError m \<Rightarrow> True
     | DeliveryNotFoundError m \<Rightarrow> True
     | InvoiceNotFoundError m \<Rightarrow> True
     | _ \<Rightarrow> False)"

definition is_DocumentsNotFoundWarning :: "exn \<Rightarrow> bool" where
  "is_DocumentsNotFoundWarning x = (case x of DocumentsNotFoundWarning m \<Rightarrow> True | _ \<Rightarrow> False)"

definition compiler_get_accounting_docs ::
  "erp \<Rightarrow> pydict \<Rightarrow> pydict \<Rightarrow> int option \<Rightarrow> exn + (pyval \<times> pyval)" where
  "compiler_get_accounting_docs e claim_create data acc =
     (let inv_num = dict_get data ''invoice_number'';
          deliv_num = dict_get data ''delivery_number'';
          po_num = dict_get data ''purchase_order_number''
      in
      if inv_num \<noteq> PNone \<and> deliv_num \<noteq> PNone then Inr (as_list inv_num, as_list deliv_num)
      else if inv_num = PNone \<and> deliv_num = PNone then
        (if \<not> dict_has claim_create ''reference_from'' then Inr (PNone, PNone)
         else if dict_get claim_create ''reference_from'' \<noteq> PStr ''purchase_order_number''
         then Inl (ValueError ''Unrecognized reference_from value'')
         else
           let po_num1 = (case po_num of PList (x # y # zs) \<Rightarrow> x | _ \<Rightarrow> po_num)
           in if \<not> dict_has data ''purchase_order_number''
              then Inl (AssertionError ''Purchase order number is required'')
              else (case mk_PurchaseOrder po_num1 of
                      Inl x \<Rightarrow> Inl x
                    | Inr doc \<Rightarrow>
                       (case find_accounting_documents e doc acc of
                          Inl x \<Rightarrow>
                            if is_DocumentsNotFoundWarning x \<or> is_DocumentNotFoundError x
                            then check_multiple None acc (PNone, PNone)
                            else Inl x
                        | Inr acc_docs \<Rightarrow>
                            check_multiple (Some acc_docs) acc
                              (PList (remdups (map (\<lambda>r. PInt (invoice r)) acc_docs)),
                               PList (remdups (map (\<lambda>r. PInt (delivery r)) acc_docs))))))
      else if inv_num = PNone \<and> deliv_num \<noteq> PNone then
        (case mk_Delivery deliv_num of
           Inl x \<Rightarrow> Inl x
         | Inr doc \<Rightarrow>
            (case find_accounting_documents e doc None of
               Inl x \<Rightarrow> (case x of InvoiceNotFoundError m \<Rightarrow> Inr (PNone, PList [deliv_num])
                                  | _ \<Rightarrow> Inl x)
             | Inr acc_docs \<Rightarrow>
                 Inr (PList (remdups (map (\<lambda>r. PInt (invoice r)) acc_docs)), PList [deliv_num])))
      else
        (case mk_Invoice inv_num of
           Inl x \<Rightarrow> Inl x
         | Inr doc \<Rightarrow>
            (case find_accounting_documents e doc None of
               Inl x \<Rightarrow> (case x of DeliveryNotFoundError m \<Rightarrow> Inr (PList [inv_num], PNone)
                                  | _ \<Rightarrow> Inl x)
             | Inr acc_docs \<Rightarrow>
                 Inr (PList [inv_num], PList (remdups (map (\<lambda>r. PInt (delivery r)) acc_docs))))))"

text \<open>An ERP holding one sales order for purchase order 123456 that has neither an invoice nor a delivery.\<close>

definition erp_own_consumption :: erp where
  "erp_own_consumption =
     \<lparr>VBAK_by_po = (\<lambda>po acc. if po = 123456 then [200000001] else []),
      VBFA_by_doc = (\<lambda>d. []),
      VBFA_invoice = (\<lambda>sd. None),
      VBFA_delivery = (\<lambda>sd. None),
      VBAK_account = (\<lambda>sd. Some 1234567)\<rparr>"

section \<open>Theorems\<close>

lemma categories_disjoint: "\<not> (categ_in c categories_QM \<and> categ_in c categories_ZQM)"
  by (auto simp: categ_in_def categories_QM_def categories_ZQM_def split: option.splits)

text \<open>
  C5. Whenever the transaction type is determined, it is one of QM, ZQM and DMS; it is
  QM exactly for a debit note whose category is one of delivery, finance, invoice,
  penalty_general, penalty_delay, penalty_quote, price, rebuild, return; ZQM exactly for
  a debit note whose category is one of bonus, promo, quality; and DMS exactly for a
  credit note. Every other input raises \<open>ValueError\<close>.
\<close>

theorem transaction_type_characterised:
  "(get_transaction_type kind category = Inr ''QM'') =
      (kind = ''debit'' \<and> categ_in category categories_QM)
   \<and> (get_transaction_type kind category = Inr ''ZQM'') =
      (kind = ''debit'' \<and> categ_in category categories_ZQM)
   \<and> (get_transaction_type kind category = Inr ''DMS'') = (kind = ''credit'')
   \<and> (\<forall>t. get_transaction_type kind category = Inr t \<longrightarrow> t \<in> {''QM'', ''ZQM'', ''DMS''})"
  using categories_disjoint [of category]
  by (auto simp: get_transaction_type_def)

theorem transaction_type_characterised_witness:
  "get_transaction_type ''debit'' (Some ''price'') = Inr ''QM''
   \<and> get_transaction_type ''debit'' (Some ''promo'') = Inr ''ZQM''
   \<and> get_transaction_type ''credit'' None = Inr ''DMS''
   \<and> ''QM'' \<in> {''QM'', ''ZQM'', ''DMS''}"
  using transaction_type_characterised [of "''debit''" "Some ''price''"]
        transaction_type_characterised [of "''debit''" "Some ''promo''"]
        transaction_type_characterised [of "''credit''" None]
  by (simp add: categ_in_def categories_QM_def categories_ZQM_def)

lemma collect_refs_eq:
  "collect_refs cc used unused rs (uv, nv) =
     (uv @ map (\<lambda>r. (r, dict_get cc r)) (filter (\<lambda>r. dict_get cc r \<noteq> PNone \<and> r \<in> set used) rs),
      nv @ map (\<lambda>r. (r, dict_get cc r))
             (filter (\<lambda>r. dict_get cc r \<noteq> PNone \<and> r \<notin> set used \<and> r \<in> set unused) rs))"
  by (induction rs arbitrary: uv nv) (auto simp: Let_def)

lemma dict_get_has: "dict_get cc r \<noteq> PNone \<Longrightarrow> dict_has cc r"
  by (auto simp: dict_get_def dict_has_def split: option.splits dest: map_of_SomeD intro: rev_image_eqI)

lemma find_filter_hd:
  "find P xs = (case filter P xs of [] \<Rightarrow> None | y # ys \<Rightarrow> Some y)"
  by (induction xs) auto

lemma dynamic_body:
  "(let invalid_ref_flds = filter (\<lambda>r. r \<notin> set available_refs) used
    in if invalid_ref_flds \<noteq> [] then Inl (ValueError ''Unrecognized reference_by value'')
       else
         let all_refs = filter (dict_has cc) available_refs
         in if all_refs = [] then Inl (RuntimeWarning ''No valid reference value found'')
            else
              let unused_refs = filter (\<lambda>r. r \<notin> set used) all_refs;
                  (used_valid_refs, unused_valid_refs) =
                     collect_refs cc used unused_refs available_refs ([], [])
              in if used_valid_refs = [] \<and> unused_valid_refs \<noteq> []
                 then Inl (RuntimeError ''Other references with valid values are available'')
                 else if used_valid_refs = [] \<and> unused_valid_refs = []
                 then Inl (RuntimeError ''No other references with valid values'')
                 else Inr (hd used_valid_refs))
   = select_dynamic used cc"
proof -
  let ?A = available_refs
  let ?U = "filter (\<lambda>r. dict_get cc r \<noteq> PNone \<and> r \<in> set used) ?A"
  let ?unused = "filter (\<lambda>r. r \<notin> set used) (filter (dict_has cc) ?A)"
  let ?N = "filter (\<lambda>r. dict_get cc r \<noteq> PNone \<and> r \<notin> set used \<and> r \<in> set ?unused) ?A"
  have inv: "(filter (\<lambda>r. r \<notin> set ?A) used \<noteq> []) = (\<not> set used \<subseteq> set ?A)"
    by (auto simp: filter_empty_conv)
  have allr: "(filter (dict_has cc) ?A = []) = (\<not> (\<exists>r \<in> set ?A. dict_has cc r))"
    by (auto simp: filter_empty_conv)
  have N: "(?N = []) = (\<not> (\<exists>r \<in> set ?A. dict_get cc r \<noteq> PNone \<and> r \<notin> set used))"
    using dict_get_has [of cc] by (auto simp: filter_empty_conv)
  have cr: "collect_refs cc used ?unused ?A ([], [])
      = (map (\<lambda>r. (r, dict_get cc r)) ?U, map (\<lambda>r. (r, dict_get cc r)) ?N)"
    by (simp add: collect_refs_eq)
  show ?thesis
  proof (cases ?U)
    case Nil
    then have f: "find (\<lambda>r. dict_get cc r \<noteq> PNone \<and> r \<in> set used) ?A = None"
      by (simp add: find_filter_hd)
    show ?thesis
      by (simp only: Let_def cr prod.case inv allr select_dynamic_def f Nil list.map
            map_is_Nil_conv N simp_thms if_True if_False option.case cong: if_cong)
  next
    case (Cons y ys)
    then have f: "find (\<lambda>r. dict_get cc r \<noteq> PNone \<and> r \<in> set used) ?A = Some y"
      by (simp add: find_filter_hd)
    show ?thesis
      by (simp only: Let_def cr prod.case inv allr select_dynamic_def f Cons list.map
            list.sel list.distinct simp_thms if_True if_False option.case cong: if_cong)
  qed
qed

lemma get_reference_dynamic:
  assumes "tr = ''QM'' \<or> (tr = ''ZQM'' \<and> (val = RefStr ''head_office_number'' \<or> val = RefStr ''account_number''))"
      and "val = RefStr s \<and> used = [s] \<or> val = RefList used"
  shows "get_reference val tr cc = select_dynamic used cc"
proof -
  have g: "tr \<in> {''QM'', ''ZQM''}"
          "\<not> (tr = ''ZQM'' \<and> val \<notin> {RefStr ''head_office_number'', RefStr ''account_number''})"
    using assms(1) by auto
  from assms(2) show ?thesis
  proof
    assume a: "val = RefStr s \<and> used = [s]"
    show ?thesis
      unfolding get_reference_def using g a
      by (simp only: if_True if_False not_not ref_rule.case simp_thms Let_def dynamic_body [unfolded Let_def])
  next
    assume a: "val = RefList used"
    show ?thesis
      unfolding get_reference_def using g a
      by (simp only: if_True if_False not_not ref_rule.case simp_thms Let_def dynamic_body [unfolded Let_def])
  qed
qed


lemma select_dynamic_name:
  assumes "select_dynamic used cc = Inr (name, v)"
  shows "name \<in> set used"
proof -
  from assms obtain r where
    "find (\<lambda>r. dict_get cc r \<noteq> PNone \<and> r \<in> set used) available_refs = Some r" "r = name"
    by (auto simp: select_dynamic_def split: if_splits option.splits)
  then show ?thesis by (auto simp: find_Some_iff)
qed




text \<open>
  C10. Under a ZQM transaction a static integer account number is returned as the
  account_number reference; every other \<open>reference_by\<close> value except the names
  account_number and head_office_number raises \<open>ValueError\<close>; hence whenever a
  reference is selected under ZQM its name is account_number or head_office_number.
\<close>

theorem zqm_reference_is_account:
  "get_reference (RefInt n) ''ZQM'' cc = Inr (''account_number'', PInt n)
   \<and> ((\<forall>k. val \<noteq> RefInt k) \<and> val \<noteq> RefStr ''account_number'' \<and> val \<noteq> RefStr ''head_office_number''
        \<longrightarrow> get_reference val ''ZQM'' cc
            = Inl (ValueError ''Invalid reference_by value for category quality''))
   \<and> (\<forall>name v. get_reference val ''ZQM'' cc = Inr (name, v)
        \<longrightarrow> name \<in> {''account_number'', ''head_office_number''})"
proof (intro conjI allI impI)
  show "get_reference (RefInt n) ''ZQM'' cc = Inr (''account_number'', PInt n)"
    by (simp add: get_reference_def)
next
  assume "(\<forall>k. val \<noteq> RefInt k) \<and> val \<noteq> RefStr ''account_number'' \<and> val \<noteq> RefStr ''head_office_number''"
  then show "get_reference val ''ZQM'' cc
            = Inl (ValueError ''Invalid reference_by value for category quality'')"
    by (cases val) (simp_all add: get_reference_def)
next
  fix name v
  assume ok: "get_reference val ''ZQM'' cc = Inr (name, v)"
  show "name \<in> {''account_number'', ''head_office_number''}"
  proof (cases val)
    case (RefInt k)
    with ok show ?thesis by (simp add: get_reference_def)
  next
    case (RefList l)
    with ok show ?thesis by (simp add: get_reference_def)
  next
    case (RefStr s)
    have s: "s = ''head_office_number'' \<or> s = ''account_number''"
    proof (rule ccontr)
      assume "\<not> ?thesis"
      then have "get_reference (RefStr s) ''ZQM'' cc
            = Inl (ValueError ''Invalid reference_by value for category quality'')"
        by (simp add: get_reference_def)
      with ok RefStr show False by simp
    qed
    then have "get_reference val ''ZQM'' cc = select_dynamic [s] cc"
      using RefStr by (intro get_reference_dynamic) auto
    with ok have "select_dynamic [s] cc = Inr (name, v)" by simp
    then have "name \<in> set [s]" by (rule select_dynamic_name)
    with s show ?thesis by auto
  qed
qed

theorem zqm_reference_is_account_witness:
  "get_reference (RefInt 1234567) ''ZQM'' [(''account_number'', PInt 1234567)]
       = Inr (''account_number'', PInt 1234567)
   \<and> get_reference (RefList [''account_number'']) ''ZQM'' [(''account_number'', PInt 1234567)]
       = Inl (ValueError ''Invalid reference_by value for category quality'')
   \<and> get_reference (RefStr ''head_office_number'') ''ZQM''
         [(''amount'', PFloat 10), (''head_office_number'', PInt 7654321)]
       = Inr (''head_office_number'', PInt 7654321)
   \<and> ''head_office_number'' \<in> {''account_number'', ''head_office_number''}"
  using zqm_reference_is_account [of 1234567 "[(''account_number'', PInt 1234567)]"
                                     "RefList [''account_number'']"]
        zqm_reference_is_account [of 0 "[(''amount'', PFloat 10), (''head_office_number'', PInt 7654321)]"
                                     "RefStr ''head_office_number''"]
  by (simp add: get_reference_def available_refs_def dict_has_def dict_get_def)

lemma str_int_123456: "str_int 123456 = ''123456''"
  by (simp add: str_int_def str_nat.simps digit_char_def)


text \<open>
  C6. The purchase order 123456 has one sales order with neither invoice nor delivery, so
  the ERP search raises \<open>DocumentsNotFoundWarning\<close>. The compiler catches and logs it,
  but with no customer account (\<open>acc\<close> is \<open>None\<close>) it then evaluates
  \<open>len(acc_docs)\<close> on the unassigned local and \<open>UnboundLocalError\<close> escapes.
\<close>

theorem documents_not_found_without_account_raises:
  "compiler_get_accounting_docs erp_own_consumption
       [(''reference_from'', PStr ''purchase_order_number'')]
       [(''purchase_order_number'', PInt 123456)] None
   = Inl (UnboundLocalError ''acc_docs'')
   \<and> find_accounting_documents erp_own_consumption (PurchaseOrder 123456) None
   = Inl (DocumentsNotFoundWarning ''Neither a debit note nor an invoice was found'')"
  by (simp add: compiler_get_accounting_docs_def dict_get_def dict_has_def mk_PurchaseOrder_def
        str_int_123456 find_accounting_documents_def erp_own_consumption_def check_multiple_def
        is_DocumentsNotFoundWarning_def)

text \<open>
  With a customer account the same warning is tolerated: compilation proceeds without
  invoice and delivery numbers.
\<close>

lemma documents_not_found_with_account_tolerated:
  assumes "dict_get data ''invoice_number'' = PNone" "dict_get data ''delivery_number'' = PNone"
      and "dict_get claim_create ''reference_from'' = PStr ''purchase_order_number''"
      and "dict_get data ''purchase_order_number'' = PInt po"
      and "mk_PurchaseOrder (PInt po) = Inr doc"
      and "find_accounting_documents e doc (Some a) = Inl (DocumentsNotFoundWarning m)"
  shows "compiler_get_accounting_docs e claim_create data (Some a) = Inr (PNone, PNone)"
proof -
  have "dict_has claim_create ''reference_from''" "dict_has data ''purchase_order_number''"
    using assms(3,4) by (auto simp: dict_get_def dict_has_def split: option.splits dest: map_of_SomeD intro: rev_image_eqI)
  then show ?thesis using assms
    by (simp add: compiler_get_accounting_docs_def check_multiple_def is_DocumentsNotFoundWarning_def)
qed

end
